theory Spec2Isabelle
  imports Main "HOL-Library.Word" "HOL-Library.Sublist"
begin

section \<open>JavaScript strings\<close>

text \<open>
  A JavaScript string is a sequence of UTF-16 code units, and the regular expressions of
  the client (none has the \<^verbatim>\<open>u\<close> flag) and \<^verbatim>\<open>String.prototype.trim\<close> work on code units.
  A string is therefore a list of 16-bit words. \<open>js\<close> embeds an ASCII literal.
\<close>

type_synonym jschar = "16 word"
type_synonym jsstring = "jschar list"

definition js :: "string \<Rightarrow> jsstring" where
  "js s = map of_char s"

text \<open>The character class \<^verbatim>\<open>[a-zA-Z0-9]\<close>.\<close>

definition is_alnum :: "jschar \<Rightarrow> bool" where
  "is_alnum c =
     ((0x30 \<le> c \<and> c \<le> 0x39) \<or> (0x41 \<le> c \<and> c \<le> 0x5A) \<or> (0x61 \<le> c \<and> c \<le> 0x7A))"

text \<open>The character class \<^verbatim>\<open>[a-zA-Z0-9_]\<close>.\<close>

definition is_word_char :: "jschar \<Rightarrow> bool" where
  "is_word_char c = (is_alnum c \<or> c = 0x5F)"

text \<open>
  \<^verbatim>\<open>s.replace(/[...]/g, r)\<close> for a pattern that matches exactly one code unit: the scan
  goes left to right, every matching code unit is replaced by \<open>r\<close>, every other one is kept.
\<close>

fun replace_all :: "(jschar \<Rightarrow> bool) \<Rightarrow> jsstring \<Rightarrow> jsstring \<Rightarrow> jsstring" where
  "replace_all p r [] = []"
| "replace_all p r (c # cs) =
     (if p c then r @ replace_all p r cs else c # replace_all p r cs)"

text \<open>
  \<^verbatim>\<open>/^[a-zA-Z0-9_]+$/.test(s)\<close>: without the \<^verbatim>\<open>m\<close> flag the anchors are the two ends of
  the string, so the whole string is one or more code units of the class.
\<close>

definition test_word_chars :: "jsstring \<Rightarrow> bool" where
  "test_word_chars s = (s \<noteq> [] \<and> list_all is_word_char s)"

text \<open>
  \<^verbatim>\<open>String.prototype.trim\<close> removes the leading and trailing code units that are WhiteSpace
  or LineTerminator in ECMAScript: TAB, LF, VT, FF, CR, SP, NBSP, U+1680, U+2000 to U+200A,
  U+2028, U+2029, U+202F, U+205F, U+3000 and U+FEFF.
\<close>

definition is_whitespace :: "jschar \<Rightarrow> bool" where
  "is_whitespace c =
     ((0x0009 \<le> c \<and> c \<le> 0x000D) \<or> c = 0x0020 \<or> c = 0x00A0 \<or> c = 0x1680 \<or>
      (0x2000 \<le> c \<and> c \<le> 0x200A) \<or> c = 0x2028 \<or> c = 0x2029 \<or> c = 0x202F \<or>
      c = 0x205F \<or> c = 0x3000 \<or> c = 0xFEFF)"

definition trim :: "jsstring \<Rightarrow> jsstring" where
  "trim s = rev (dropWhile is_whitespace (rev (dropWhile is_whitespace s)))"

text \<open>
  The decimal text of a natural number, as a template literal prints an HTTP status.
\<close>

definition digit :: "nat \<Rightarrow> jschar" where
  "digit d = of_nat (48 + d)"

fun show_nat :: "nat \<Rightarrow> jsstring" where
  "show_nat n = (if n < 10 then [digit n] else show_nat (n div 10) @ [digit (n mod 10)])"

declare show_nat.simps [simp del]

section \<open>The credential name\<close>

text \<open>
  \<^verbatim>\<open>generateCredentialName\<close> is the same in \<^verbatim>\<open>src/index.ts\<close> and in the documented
  variant: \<^verbatim>\<open>'universe_token_' + serverUrl.replace(/[^a-zA-Z0-9]/g, '_')\<close>.
  It reads no field of the client.
\<close>

definition generateCredentialName :: "jsstring \<Rightarrow> jsstring" where
  "generateCredentialName serverUrl =
     js ''universe_token_'' @ replace_all (\<lambda>c. \<not> is_alnum c) (js ''_'') serverUrl"

section \<open>JSON values, errors, requests and responses\<close>

text \<open>
  A value that \<^verbatim>\<open>JSON.parse\<close> can give. A number is kept as the two things the client
  observes of it, whether it is truthy and the text \<^verbatim>\<open>ToString\<close> gives it; arithmetic on
  doubles plays no part. An object is the list of its own properties.
\<close>

datatype json =
    JNull
  | JBool bool
  | JNum bool jsstring
  | JStr jsstring
  | JArr "json list"
  | JObj "(jsstring \<times> json) list"

text \<open>What the code throws and catches: an error object of some class, with its message.\<close>

datatype js_error = Error jsstring | TypeError jsstring | SyntaxError jsstring

fun message :: "js_error \<Rightarrow> jsstring" where
  "message (Error m) = m"
| "message (TypeError m) = m"
| "message (SyntaxError m) = m"

fun ToBoolean :: "json \<Rightarrow> bool" where
  "ToBoolean JNull = False"
| "ToBoolean (JBool b) = b"
| "ToBoolean (JNum nonzero text) = nonzero"
| "ToBoolean (JStr s) = (s \<noteq> [])"
| "ToBoolean (JArr xs) = True"
| "ToBoolean (JObj kvs) = True"

text \<open>A value that may be \<^verbatim>\<open>undefined\<close> is an option; \<^verbatim>\<open>undefined\<close> is falsy.\<close>

definition truthy :: "json option \<Rightarrow> bool" where
  "truthy v = (case v of None \<Rightarrow> False | Some j \<Rightarrow> ToBoolean j)"

text \<open>
  Reading a property that no prototype defines (the client reads \<^verbatim>\<open>error\<close> and
  \<^verbatim>\<open>description\<close>): on \<^verbatim>\<open>null\<close> a TypeError, on an object its own property or
  \<^verbatim>\<open>undefined\<close>, on every other value \<^verbatim>\<open>undefined\<close>.
\<close>

fun get_prop :: "json \<Rightarrow> jsstring \<Rightarrow> js_error + json option" where
  "get_prop JNull k = Inl (TypeError (js ''Cannot read properties of null''))"
| "get_prop (JObj kvs) k = Inr (map_of kvs k)"
| "get_prop v k = Inr None"

text \<open>
  \<^verbatim>\<open>ToString\<close>, as a template literal applies it. An array is joined with commas, where
  a \<^verbatim>\<open>null\<close> element gives the empty text. An object gives \<^verbatim>\<open>[object Object]\<close>, unless
  it has an own property \<^verbatim>\<open>toString\<close>: that one is no function, \<^verbatim>\<open>valueOf\<close> gives back
  the object, and the conversion throws a TypeError.
\<close>

fun ToString :: "json \<Rightarrow> js_error + jsstring"
  and join_elems :: "json list \<Rightarrow> js_error + jsstring" where
  "ToString JNull = Inr (js ''null'')"
| "ToString (JBool b) = Inr (if b then js ''true'' else js ''false'')"
| "ToString (JNum nonzero text) = Inr text"
| "ToString (JStr s) = Inr s"
| "ToString (JArr xs) = join_elems xs"
| "ToString (JObj kvs) =
     (if js ''toString'' \<in> set (map fst kvs)
      then Inl (TypeError (js ''Cannot convert object to primitive value''))
      else Inr (js ''[object Object]''))"
| "join_elems [] = Inr []"
| "join_elems (x # xs) =
     (case (if x = JNull then Inr [] else ToString x) of
        Inl e \<Rightarrow> Inl e
      | Inr s \<Rightarrow>
          (if xs = [] then Inr s
           else (case join_elems xs of Inl e \<Rightarrow> Inl e | Inr t \<Rightarrow> Inr (s @ js '','' @ t))))"

text \<open>
  A string field that may still be \<^verbatim>\<open>undefined\<close>, inside a template literal.
\<close>

definition tmpl :: "jsstring option \<Rightarrow> jsstring" where
  "tmpl v = (case v of None \<Rightarrow> js ''undefined'' | Some s \<Rightarrow> s)"

text \<open>The double quote, U+0022.\<close>

definition dquote :: jschar where
  "dquote = 0x22"

text \<open>\<^verbatim>\<open>!v\<close> for a string that may be \<^verbatim>\<open>undefined\<close>.\<close>

definition str_falsy :: "jsstring option \<Rightarrow> bool" where
  "str_falsy v = (case v of None \<Rightarrow> True | Some s \<Rightarrow> s = [])"

text \<open>
  The options handed to \<^verbatim>\<open>fetch\<close>, with the URL. The body is \<^verbatim>\<open>JSON.stringify\<close> of the
  value kept here, or \<^verbatim>\<open>undefined\<close>.
\<close>

record request =
  req_url :: jsstring
  req_method :: jsstring
  req_headers :: "(jsstring \<times> jsstring) list"
  req_body :: "json option"

text \<open>
  A \<^verbatim>\<open>Response\<close>: its status, its status text, and what \<^verbatim>\<open>response.json()\<close> settles to
  (a SyntaxError when the body is no JSON text). \<^verbatim>\<open>response.ok\<close> is a status from 200 to
  299.
\<close>

record response =
  status :: nat
  statusText :: jsstring
  json_result :: "js_error + json"

definition ok :: "response \<Rightarrow> bool" where
  "ok r = (200 \<le> status r \<and> status r \<le> 299)"

text \<open>
  The network is outside the client: it decides, for the k-th call of \<^verbatim>\<open>fetch\<close> and its
  request, whether the promise rejects (no response was obtained) or resolves to a response.
  What the client does to the outside is a trace of events: the requests it sends and the
  delays it waits, in milliseconds.
\<close>

datatype outcome = Rejected js_error | Responded response

datatype event = Fetch request | Delay nat

type_synonym network = "nat \<Rightarrow> request \<Rightarrow> outcome"

fun requests :: "event list \<Rightarrow> request list" where
  "requests [] = []"
| "requests (Fetch r # es) = r # requests es"
| "requests (Delay ms # es) = requests es"

definition fetch :: "network \<Rightarrow> request \<Rightarrow> event list \<Rightarrow> outcome \<times> event list" where
  "fetch net req tr = (net (length (requests tr)) req, tr @ [Fetch req])"

text \<open>
  The configuration object and the credentials. The client casts the entries it reads to
  \<^verbatim>\<open>string\<close>, and the credentials are declared as strings: both are maps from keys to
  strings, an absent key reading as \<^verbatim>\<open>undefined\<close>.
\<close>

type_synonym config = "jsstring \<rightharpoonup> jsstring"
type_synonym credentials = "jsstring \<rightharpoonup> jsstring"

section \<open>The client of \<^verbatim>\<open>src/index.ts\<close>\<close>

text \<open>
  The fields \<^verbatim>\<open>serverUrl\<close>, \<^verbatim>\<open>universe\<close> and \<^verbatim>\<open>token\<close> are \<^verbatim>\<open>undefined\<close> until
  \<^verbatim>\<open>init\<close> assigns them; the constructor only keeps the configuration.
\<close>

record plain_client =
  p_config :: config
  p_serverUrl :: "jsstring option"
  p_universe :: "jsstring option"
  p_token :: "jsstring option"

definition constructor_plain :: "config \<Rightarrow> plain_client" where
  "constructor_plain cfg =
     \<lparr>p_config = cfg, p_serverUrl = None, p_universe = None, p_token = None\<rparr>"

text \<open>
  A method that assigns fields returns the client with its result; a throw before the
  assignments leaves the client as it was.
\<close>

definition init_plain ::
  "plain_client \<Rightarrow> credentials \<Rightarrow> config \<Rightarrow> (js_error + unit) \<times> plain_client" where
  "init_plain c creds cfg =
     (if str_falsy (cfg (js ''serverUrl''))
      then (Inl (Error (js ''serverUrl must be specified in the config'')), c)
      else if str_falsy (cfg (js ''universe''))
      then (Inl (Error (js ''universe must be specified in the config'')), c)
      else
        (let credentialName = generateCredentialName (tmpl (cfg (js ''serverUrl''))) in
         if str_falsy (creds credentialName)
         then (Inl (Error (js ''Credential '' @ [dquote] @ credentialName @ [dquote] @
                          js '' is required'')), c)
         else (Inr (),
               c\<lparr>p_serverUrl := cfg (js ''serverUrl''),
                 p_universe := cfg (js ''universe''),
                 p_token := creds credentialName\<rparr>)))"

definition fetchApi_plain ::
  "network \<Rightarrow> plain_client \<Rightarrow> jsstring \<Rightarrow> jsstring \<Rightarrow> json option \<Rightarrow> event list \<Rightarrow>
     (js_error + json) \<times> event list" where
  "fetchApi_plain net c endpoint meth body tr =
     (let url = tmpl (p_serverUrl c) @ endpoint;
          hdrs = [(js ''Content-Type'', js ''application/json''),
                  (js ''Authorization'', js ''Bearer '' @ tmpl (p_token c))];
          options = \<lparr>req_url = url, req_method = meth, req_headers = hdrs,
                     req_body = (if truthy body then body else None)\<rparr>
      in case fetch net options tr of
           (Rejected e, tr') \<Rightarrow> (Inl e, tr')
         | (Responded resp, tr') \<Rightarrow>
             (if \<not> ok resp
              then (Inl (Error (js ''API request to '' @ url @ js '' failed: '' @
                                 statusText resp)), tr')
              else (json_result resp, tr')))"

text \<open>A method of type \<^verbatim>\<open>Promise<void>\<close> drops the value it awaited.\<close>

definition void :: "(js_error + json) \<times> event list \<Rightarrow> (js_error + unit) \<times> event list" where
  "void r = (case r of (Inl e, tr) \<Rightarrow> (Inl e, tr) | (Inr v, tr) \<Rightarrow> (Inr (), tr))"

text \<open>
  The body of \<^verbatim>\<open>/emit\<close>. \<^verbatim>\<open>JSON.stringify\<close> leaves a property out when its value is
  \<^verbatim>\<open>undefined\<close>, as \<^verbatim>\<open>universe\<close> is before \<^verbatim>\<open>init\<close>.
\<close>

definition emit_body :: "jsstring option \<Rightarrow> jsstring \<Rightarrow> jsstring \<Rightarrow> json" where
  "emit_body u fileId content =
     JObj ((case u of None \<Rightarrow> [] | Some n \<Rightarrow> [(js ''universe'', JStr n)]) @
           [(js ''thing'', JObj [(js ''id'', JStr fileId), (js ''text'', JStr content)])])"

definition addFile_plain ::
  "network \<Rightarrow> plain_client \<Rightarrow> jsstring \<Rightarrow> jsstring \<Rightarrow> event list \<Rightarrow>
     (js_error + unit) \<times> event list" where
  "addFile_plain net c fileId content tr =
     void (fetchApi_plain net c (js ''/emit'') (js ''POST'')
             (Some (emit_body (p_universe c) fileId content)) tr)"

definition updateFile_plain ::
  "network \<Rightarrow> plain_client \<Rightarrow> jsstring \<Rightarrow> jsstring \<Rightarrow> event list \<Rightarrow>
     (js_error + unit) \<times> event list" where
  "updateFile_plain net c fileId content tr = addFile_plain net c fileId content tr"

definition deleteFile_plain ::
  "network \<Rightarrow> plain_client \<Rightarrow> jsstring \<Rightarrow> event list \<Rightarrow> (js_error + unit) \<times> event list" where
  "deleteFile_plain net c fileId tr =
     void (fetchApi_plain net c (js ''/thing/'' @ tmpl (p_universe c) @ js ''/'' @ fileId)
             (js ''DELETE'') None tr)"

definition finalize_plain ::
  "plain_client \<Rightarrow> event list \<Rightarrow> (js_error + unit) \<times> plain_client \<times> event list" where
  "finalize_plain c tr = (Inr (), c, tr)"

definition deleteAllFiles_plain ::
  "network \<Rightarrow> plain_client \<Rightarrow> event list \<Rightarrow> (js_error + unit) \<times> event list" where
  "deleteAllFiles_plain net c tr =
     void (fetchApi_plain net c (js ''/universe/'' @ tmpl (p_universe c)) (js ''DELETE'') None tr)"

section \<open>The documented client, which validates\<close>

text \<open>
  The second client of the repository (\<^verbatim>\<open>src/unnamed/part_000\<close>, the documented
  one) validates the configuration in its constructor and
  the file id in its operations, reads the body of an error response, and retries.
  \<^verbatim>\<open>new URL(serverUrl)\<close> is the platform's URL parser: whether it accepts a string is the
  parameter \<open>valid_url\<close>.
\<close>

record checked_client =
  c_serverUrl :: jsstring
  c_universe :: jsstring
  c_token :: "jsstring option"

definition constructor_checked :: "(jsstring \<Rightarrow> bool) \<Rightarrow> config \<Rightarrow> js_error + checked_client" where
  "constructor_checked valid_url cfg =
     (if str_falsy (cfg (js ''serverUrl''))
      then Inl (Error (js ''serverUrl must be specified in the config''))
      else if str_falsy (cfg (js ''universe''))
      then Inl (Error (js ''universe must be specified in the config''))
      else
        (let serverUrl = tmpl (cfg (js ''serverUrl''));
             universe = tmpl (cfg (js ''universe''))
         in if \<not> valid_url serverUrl
            then Inl (Error (js ''serverUrl must be a valid URL''))
            else if \<not> test_word_chars universe
            then Inl (Error (js ''universe must be alphanumeric with underscores''))
            else Inr \<lparr>c_serverUrl = serverUrl, c_universe = universe, c_token = None\<rparr>))"

definition init_checked ::
  "checked_client \<Rightarrow> credentials \<Rightarrow> (js_error + unit) \<times> checked_client" where
  "init_checked c creds =
     (let credentialName = generateCredentialName (c_serverUrl c) in
      if str_falsy (creds credentialName)
      then (Inl (Error (js ''Credential '' @ [dquote] @ credentialName @ [dquote] @
                          js '' is required'')), c)
      else (Inr (), c\<lparr>c_token := creds credentialName\<rparr>))"

text \<open>
  \<^verbatim>\<open>handleResponse\<close>. The inner \<^verbatim>\<open>try\<close> covers \<^verbatim>\<open>response.json()\<close> and the two property
  reads; whatever it catches leaves \<^verbatim>\<open>errorMessage\<close> at the status text. The template
  literal that builds the message is outside it.
\<close>

definition error_message :: "response \<Rightarrow> json" where
  "error_message resp =
     (case json_result resp of
        Inl e \<Rightarrow> JStr (statusText resp)
      | Inr errorData \<Rightarrow>
          (case get_prop errorData (js ''error'') of
             Inl e \<Rightarrow> JStr (statusText resp)
           | Inr err \<Rightarrow>
               (if truthy err then (case err of Some v \<Rightarrow> v | None \<Rightarrow> JStr (statusText resp))
                else
                  (case get_prop errorData (js ''description'') of
                     Inl e \<Rightarrow> JStr (statusText resp)
                   | Inr descr \<Rightarrow>
                       (case descr of
                          Some v \<Rightarrow> (if ToBoolean v then v else JStr (statusText resp))
                        | None \<Rightarrow> JStr (statusText resp))))))"

definition handleResponse :: "response \<Rightarrow> js_error + json" where
  "handleResponse resp =
     (if ok resp then json_result resp
      else
        (case ToString (error_message resp) of
           Inl e \<Rightarrow> Inl e
         | Inr m \<Rightarrow>
             Inl (Error (js ''API request failed: '' @ show_nat (status resp) @ js '' - '' @ m))))"

text \<open>
  The two statements inside each \<^verbatim>\<open>try\<close> of \<^verbatim>\<open>fetchApi\<close>: fetch, then handle the
  response. A rejected fetch and a throw of \<^verbatim>\<open>handleResponse\<close> reach the same
  \<^verbatim>\<open>catch\<close>.
\<close>

definition attempt :: "network \<Rightarrow> request \<Rightarrow> event list \<Rightarrow> (js_error + json) \<times> event list" where
  "attempt net req tr =
     (case fetch net req tr of
        (Rejected e, tr') \<Rightarrow> (Inl e, tr')
      | (Responded resp, tr') \<Rightarrow> (handleResponse resp, tr'))"

definition fetchApi_checked ::
  "network \<Rightarrow> checked_client \<Rightarrow> jsstring \<Rightarrow> jsstring \<Rightarrow> json option \<Rightarrow> event list \<Rightarrow>
     (js_error + json) \<times> event list" where
  "fetchApi_checked net c endpoint meth body tr =
     (let url = c_serverUrl c @ endpoint;
          hdrs = [(js ''Content-Type'', js ''application/json''),
                  (js ''Authorization'', js ''Bearer '' @ tmpl (c_token c))];
          options = \<lparr>req_url = url, req_method = meth, req_headers = hdrs,
                     req_body = (if truthy body then body else None)\<rparr>
      in case attempt net options tr of
           (Inr v, tr1) \<Rightarrow> (Inr v, tr1)
         | (Inl error, tr1) \<Rightarrow>
             (case attempt net options (tr1 @ [Delay 1000]) of
                (Inr v, tr2) \<Rightarrow> (Inr v, tr2)
              | (Inl secondError, tr2) \<Rightarrow>
                  (Inl (Error (js ''API request failed after retry: '' @ message secondError)),
                   tr2)))"

text \<open>
  The operations. Their parameters are declared \<^verbatim>\<open>string\<close>, so the \<^verbatim>\<open>typeof\<close> tests
  pass and the test that remains is the one on the trimmed file id.
\<close>

definition addFile_checked ::
  "network \<Rightarrow> checked_client \<Rightarrow> jsstring \<Rightarrow> jsstring \<Rightarrow> event list \<Rightarrow>
     (js_error + unit) \<times> event list" where
  "addFile_checked net c fileId content tr =
     (if trim fileId = []
      then (Inl (Error (js ''fileId must be a non-empty string'')), tr)
      else void (fetchApi_checked net c (js ''/emit'') (js ''POST'')
                   (Some (emit_body (Some (c_universe c)) fileId content)) tr))"

definition updateFile_checked ::
  "network \<Rightarrow> checked_client \<Rightarrow> jsstring \<Rightarrow> jsstring \<Rightarrow> event list \<Rightarrow>
     (js_error + unit) \<times> event list" where
  "updateFile_checked net c fileId content tr = addFile_checked net c fileId content tr"

definition deleteFile_checked ::
  "network \<Rightarrow> checked_client \<Rightarrow> jsstring \<Rightarrow> event list \<Rightarrow> (js_error + unit) \<times> event list" where
  "deleteFile_checked net c fileId tr =
     (if trim fileId = []
      then (Inl (Error (js ''fileId must be a non-empty string'')), tr)
      else void (fetchApi_checked net c (js ''/thing/'' @ c_universe c @ js ''/'' @ fileId)
                   (js ''DELETE'') None tr))"

definition finalize_checked ::
  "checked_client \<Rightarrow> event list \<Rightarrow> (js_error + unit) \<times> checked_client \<times> event list" where
  "finalize_checked c tr = (Inr (), c, tr)"

definition deleteAllFiles_checked ::
  "network \<Rightarrow> checked_client \<Rightarrow> event list \<Rightarrow> (js_error + unit) \<times> event list" where
  "deleteAllFiles_checked net c tr =
     void (fetchApi_checked net c (js ''/universe/'' @ c_universe c) (js ''DELETE'') None tr)"

text \<open>
  The request both clients build in \<^verbatim>\<open>fetchApi\<close>, from the base URL and the text the
  token has in the header.
\<close>

definition request_of ::
  "jsstring \<Rightarrow> jsstring \<Rightarrow> jsstring \<Rightarrow> jsstring \<Rightarrow> json option \<Rightarrow> request" where
  "request_of base tok endpoint meth body =
     \<lparr>req_url = base @ endpoint, req_method = meth,
      req_headers = [(js ''Content-Type'', js ''application/json''),
                     (js ''Authorization'', js ''Bearer '' @ tok)],
      req_body = (if truthy body then body else None)\<rparr>"

section \<open>The errors and requests of the specification\<close>

text \<open>
  The clients throw plain \<^verbatim>\<open>Error\<close> objects. The error classes of the specification are
  read as the errors with the messages below.
\<close>

definition ConfigError :: "js_error \<Rightarrow> bool" where
  "ConfigError e =
     (e = Error (js ''serverUrl must be specified in the config'') \<or>
      e = Error (js ''universe must be specified in the config'') \<or>
      e = Error (js ''serverUrl must be a valid URL'') \<or>
      e = Error (js ''universe must be alphanumeric with underscores''))"

definition CredentialError :: "jsstring \<Rightarrow> js_error" where
  "CredentialError credentialName =
     Error (js ''Credential '' @ [dquote] @ credentialName @ [dquote] @ js '' is required'')"

definition ValidationError :: js_error where
  "ValidationError = Error (js ''fileId must be a non-empty string'')"

definition ApiError :: "nat \<Rightarrow> jsstring \<Rightarrow> js_error" where
  "ApiError code msg = Error (js ''API request failed: '' @ show_nat code @ js '' - '' @ msg)"

definition TransportError :: "jsstring \<Rightarrow> js_error" where
  "TransportError msg = Error (js ''API request failed after retry: '' @ msg)"

text \<open>
  The outbound requests as the specification's table of HTTP calls gives them: the URL is
  the server URL followed by the path, every request carries the two headers, and only
  \<^verbatim>\<open>/emit\<close> has a body.
\<close>

definition spec_headers :: "jsstring \<Rightarrow> (jsstring \<times> jsstring) list" where
  "spec_headers tok =
     [(js ''Content-Type'', js ''application/json''),
      (js ''Authorization'', js ''Bearer '' @ tok)]"


definition spec_delete_request ::
  "jsstring \<Rightarrow> jsstring \<Rightarrow> jsstring \<Rightarrow> jsstring \<Rightarrow> request" where
  "spec_delete_request serverUrl universeName tok fileId =
     \<lparr>req_url = serverUrl @ js ''/thing/'' @ universeName @ js ''/'' @ fileId,
      req_method = js ''DELETE'', req_headers = spec_headers tok, req_body = None\<rparr>"

section \<open>A store, for the examples\<close>

definition store_config :: config where
  "store_config =
     [js ''serverUrl'' \<mapsto> js ''https://store.example'', js ''universe'' \<mapsto> js ''myuni'']"

definition store_credentials :: credentials where
  "store_credentials = [js ''universe_token_https___store_example'' \<mapsto> js ''secret'']"

definition store_plain :: plain_client where
  "store_plain =
     \<lparr>p_config = store_config, p_serverUrl = Some (js ''https://store.example''),
      p_universe = Some (js ''myuni''), p_token = Some (js ''secret'')\<rparr>"

definition store_checked :: checked_client where
  "store_checked =
     \<lparr>c_serverUrl = js ''https://store.example'', c_universe = js ''myuni'',
      c_token = Some (js ''secret'')\<rparr>"

definition ok_response :: response where
  "ok_response = \<lparr>status = 200, statusText = js ''OK'', json_result = Inr (JObj [])\<rparr>"

definition not_found_response :: response where
  "not_found_response =
     \<lparr>status = 404, statusText = js ''Not Found'',
      json_result = Inr (JObj [(js ''error'', JStr (js ''not found''))])\<rparr>"

definition no_content_response :: response where
  "no_content_response =
     \<lparr>status = 204, statusText = js ''No Content'',
      json_result = Inl (SyntaxError (js ''Unexpected end of JSON input''))\<rparr>"

text \<open>A network that gives every request the same response.\<close>

definition always :: "response \<Rightarrow> network" where
  "always resp = (\<lambda>k req. Responded resp)"


text \<open>A network on which no request gets a response.\<close>

definition unreachable :: network where
  "unreachable = (\<lambda>k req. Rejected (TypeError (js ''fetch failed'')))"

definition store_fresh :: checked_client where
  "store_fresh =
     \<lparr>c_serverUrl = js ''https://store.example'', c_universe = js ''myuni'', c_token = None\<rparr>"

definition rotated_credentials :: credentials where
  "rotated_credentials = [js ''universe_token_https___store_example'' \<mapsto> js ''rotated'']"

definition bad_url_config :: config where
  "bad_url_config = [js ''serverUrl'' \<mapsto> js ''not a url'', js ''universe'' \<mapsto> js ''myuni'']"

definition bad_name_config :: config where
  "bad_name_config =
     [js ''serverUrl'' \<mapsto> js ''https://store.example'', js ''universe'' \<mapsto> js ''my uni!'']"

text \<open>
  A stand-in for the URL parser in the examples: it accepts a string that starts with
  \<^verbatim>\<open>https://\<close> and goes on.
\<close>

definition accepts_https :: "jsstring \<Rightarrow> bool" where
  "accepts_https s = (take 8 s = js ''https://'' \<and> 8 < length s)"

definition gone_response :: response where
  "gone_response =
     \<lparr>status = 410, statusText = js ''Gone'',
      json_result = Inr (JObj [(js ''error'', JStr (js ''thing was deleted''))])\<rparr>"

definition conflict_response :: response where
  "conflict_response =
     \<lparr>status = 409, statusText = js ''Conflict'',
      json_result = Inr (JObj [(js ''description'', JStr (js ''universe is locked''))])\<rparr>"

definition server_error_response :: response where
  "server_error_response =
     \<lparr>status = 500, statusText = js ''Internal Server Error'', json_result = Inr (JObj [])\<rparr>"

definition bad_gateway_response :: response where
  "bad_gateway_response =
     \<lparr>status = 502, statusText = js ''Bad Gateway'',
      json_result = Inl (SyntaxError (js ''Unexpected token < in JSON''))\<rparr>"

definition null_body_response :: response where
  "null_body_response =
     \<lparr>status = 503, statusText = js ''Service Unavailable'', json_result = Inr JNull\<rparr>"

definition array_body_response :: response where
  "array_body_response =
     \<lparr>status = 503, statusText = js ''Service Unavailable'',
      json_result = Inr (JArr [JStr (js ''error'')])\<rparr>"

definition list_error_response :: response where
  "list_error_response =
     \<lparr>status = 400, statusText = js ''Bad Request'',
      json_result = Inr (JObj [(js ''error'', JArr [JStr (js ''id''), JStr (js ''text'')])])\<rparr>"

definition unprintable_error_response :: response where
  "unprintable_error_response =
     \<lparr>status = 400, statusText = js ''Bad Request'',
      json_result =
        Inr (JObj [(js ''error'', JObj [(js ''toString'', JNum True (js ''1''))])])\<rparr>"

definition object_description_response :: response where
  "object_description_response =
     \<lparr>status = 400, statusText = js ''Bad Request'',
      json_result = Inr (JObj [(js ''error'', JStr []), (js ''description'', JObj [])])\<rparr>"

section \<open>Properties of the credential name\<close>

lemma replace_all_single: "replace_all p [r] s = map (\<lambda>c. if p c then r else c) s"
  by (induction s) simp_all

text \<open>
  Claim C3. The credential name of a server URL is \<open>universe_token_\<close> followed by the URL
  in which every code unit outside \<^verbatim>\<open>[A-Za-z0-9]\<close> is replaced by an underscore and every
  alphanumeric code unit stays where it is. The name is a function of the URL alone: it
  takes no client state and leaves none behind.
\<close>

theorem generateCredentialName_sanitises:
  "generateCredentialName serverUrl =
     js ''universe_token_'' @ map (\<lambda>c. if is_alnum c then c else 0x5F) serverUrl"
proof -
  have "js ''_'' = [0x5F]"
    by (simp add: js_def)
  then have "replace_all (\<lambda>c. \<not> is_alnum c) (js ''_'') serverUrl =
      map (\<lambda>c. if \<not> is_alnum c then 0x5F else c) serverUrl"
    by (simp add: replace_all_single)
  also have "\<dots> = map (\<lambda>c. if is_alnum c then c else 0x5F) serverUrl"
    by (rule map_cong) simp_all
  finally show ?thesis
    by (simp add: generateCredentialName_def)
qed

theorem generateCredentialName_sanitises_witness:
  "generateCredentialName (js ''https://store.example:8080/a_b'') =
     js ''universe_token_https___store_example_8080_a_b''"
  using generateCredentialName_sanitises [of "js ''https://store.example:8080/a_b''"]
  by (simp add: js_def is_alnum_def)

section \<open>Strings and examples\<close>

lemma trim_empty_iff: "trim s = [] \<longleftrightarrow> list_all is_whitespace s"
proof
  assume "list_all is_whitespace s"
  then have "dropWhile is_whitespace s = []"
    by (simp add: list_all_iff dropWhile_eq_Nil_conv)
  then have "rev (dropWhile is_whitespace (rev (dropWhile is_whitespace s))) =
      rev (dropWhile is_whitespace (rev []))"
    by (rule arg_cong)
  then show "trim s = []"
    by (simp only: trim_def rev.simps dropWhile.simps)
next
  assume "trim s = []"
  then have all: "\<forall>x\<in>set (dropWhile is_whitespace s). is_whitespace x"
    by (simp add: trim_def dropWhile_eq_Nil_conv)
  have "dropWhile is_whitespace s = []"
  proof (rule ccontr)
    assume ne: "dropWhile is_whitespace s \<noteq> []"
    then have "\<not> is_whitespace (hd (dropWhile is_whitespace s))"
      by (rule hd_dropWhile)
    moreover from ne have "hd (dropWhile is_whitespace s) \<in> set (dropWhile is_whitespace s)"
      by simp
    ultimately show False
      using all by blast
  qed
  then show "list_all is_whitespace s"
    by (simp add: dropWhile_eq_Nil_conv list_all_iff)
qed

lemma keys_differ: "js ''serverUrl'' \<noteq> js ''universe''"
  by (simp add: js_def)

lemma store_config_fields:
  "store_config (js ''serverUrl'') = Some (js ''https://store.example'')"
  "store_config (js ''universe'') = Some (js ''myuni'')"
  using keys_differ by (simp_all add: store_config_def)

lemma bad_name_config_fields:
  "bad_name_config (js ''serverUrl'') = Some (js ''https://store.example'')"
  "bad_name_config (js ''universe'') = Some (js ''my uni!'')"
  using keys_differ by (simp_all add: bad_name_config_def)

lemma bad_url_config_fields:
  "bad_url_config (js ''serverUrl'') = Some (js ''not a url'')"
  "bad_url_config (js ''universe'') = Some (js ''myuni'')"
  using keys_differ by (simp_all add: bad_url_config_def)

lemma store_name:
  "generateCredentialName (js ''https://store.example'') = js ''universe_token_https___store_example''"
  by (simp add: generateCredentialName_def js_def is_alnum_def)

lemma store_credentials_name:
  "store_credentials (js ''universe_token_https___store_example'') = Some (js ''secret'')"
  by (simp add: store_credentials_def)

lemma literals_nonempty:
  "js ''https://store.example'' \<noteq> []" "js ''myuni'' \<noteq> []" "js ''my uni!'' \<noteq> []"
  "js ''secret'' \<noteq> []" "js ''not a url'' \<noteq> []"
  by (simp_all add: js_def)

lemma accepts_https_examples:
  "accepts_https (js ''https://store.example'')" "\<not> accepts_https (js ''not a url'')"
  by (simp_all add: accepts_https_def js_def)

lemma my_uni_not_word: "\<exists>ch\<in>set (js ''my uni!''). \<not> is_word_char ch"
  by (simp add: js_def is_word_char_def is_alnum_def)

lemma myuni_word: "list_all is_word_char (js ''myuni'')"
  by (simp add: js_def is_word_char_def is_alnum_def)

lemma store_plain_fields:
  "p_serverUrl store_plain = Some (js ''https://store.example'')"
  "p_universe store_plain = Some (js ''myuni'')"
  "p_token store_plain = Some (js ''secret'')"
  by (simp_all add: store_plain_def)

lemma store_checked_fields:
  "c_serverUrl store_checked = js ''https://store.example''"
  "c_universe store_checked = js ''myuni''"
  "c_token store_checked = Some (js ''secret'')"
  by (simp_all add: store_checked_def)

lemma store_fresh_url: "c_serverUrl store_fresh = js ''https://store.example''"
  by (simp add: store_fresh_def)

lemma response_oks:
  "ok ok_response" "\<not> ok not_found_response" "\<not> ok gone_response" "\<not> ok conflict_response"
  "\<not> ok bad_gateway_response" "ok no_content_response" "\<not> ok server_error_response"
  "\<not> ok null_body_response" "\<not> ok array_body_response" "\<not> ok list_error_response"
  "\<not> ok unprintable_error_response" "\<not> ok object_description_response"
  by (simp_all add: ok_def ok_response_def not_found_response_def gone_response_def
      conflict_response_def bad_gateway_response_def no_content_response_def
      server_error_response_def null_body_response_def array_body_response_def
      list_error_response_def unprintable_error_response_def object_description_response_def)

lemma show_status: "show_nat 404 = js ''404''" "show_nat 409 = js ''409''"
  "show_nat 502 = js ''502''" "show_nat 410 = js ''410''" "show_nat 500 = js ''500''"
  "show_nat 503 = js ''503''" "show_nat 400 = js ''400''"
  by (simp_all add: show_nat.simps digit_def js_def)


lemma trim_reserved: "trim (js ''a/b?c#d'') \<noteq> []"
  by (simp add: trim_empty_iff js_def is_whitespace_def)

section \<open>Configuration and credentials\<close>

text \<open>
  Claim C4, as amended. The documented client's constructor fails with one of the four
  configuration errors when \<^verbatim>\<open>serverUrl\<close> is missing, empty or rejected by the URL parser,
  or when \<^verbatim>\<open>universe\<close> is missing, empty or has a code unit outside \<^verbatim>\<open>[A-Za-z0-9_]\<close>;
  it accepts every other configuration and keeps the two values. The client of
  \<^verbatim>\<open>src/index.ts\<close> validates in \<^verbatim>\<open>init\<close> and only tests that both entries are present
  and non-empty: with the credential at hand it accepts any such pair, whatever the URL
  parser or the character class say.
\<close>

theorem constructor_checked_validates:
  "((cfg (js ''serverUrl'') = None \<or> cfg (js ''universe'') = None \<or>
     (cfg (js ''serverUrl'') = Some s \<and> (s = [] \<or> \<not> valid_url s)) \<or>
     (cfg (js ''universe'') = Some u \<and> (u = [] \<or> (\<exists>ch\<in>set u. \<not> is_word_char ch)))) \<longrightarrow>
      (\<exists>e. constructor_checked valid_url cfg = Inl e \<and> ConfigError e)) \<and>
   (cfg (js ''serverUrl'') = Some s \<and> s \<noteq> [] \<and> valid_url s \<and>
    cfg (js ''universe'') = Some u \<and> u \<noteq> [] \<and> list_all is_word_char u \<longrightarrow>
      constructor_checked valid_url cfg =
        Inr \<lparr>c_serverUrl = s, c_universe = u, c_token = None\<rparr>) \<and>
   (cfg (js ''serverUrl'') = Some s \<and> s \<noteq> [] \<and> cfg (js ''universe'') = Some u \<and> u \<noteq> [] \<and>
    creds (generateCredentialName s) = Some t \<and> t \<noteq> [] \<longrightarrow>
      init_plain p creds cfg =
        (Inr (), p\<lparr>p_serverUrl := Some s, p_universe := Some u, p_token := Some t\<rparr>)) \<and>
   (str_falsy (cfg (js ''serverUrl'')) \<or> str_falsy (cfg (js ''universe'')) \<longrightarrow>
      (\<exists>e. init_plain p creds cfg = (Inl e, p) \<and> ConfigError e))"
proof (intro conjI impI)
  assume bad: "cfg (js ''serverUrl'') = None \<or> cfg (js ''universe'') = None \<or>
     (cfg (js ''serverUrl'') = Some s \<and> (s = [] \<or> \<not> valid_url s)) \<or>
     (cfg (js ''universe'') = Some u \<and> (u = [] \<or> (\<exists>ch\<in>set u. \<not> is_word_char ch)))"
  then show "\<exists>e. constructor_checked valid_url cfg = Inl e \<and> ConfigError e"
    by (auto simp: constructor_checked_def ConfigError_def str_falsy_def tmpl_def
        test_word_chars_def list_all_iff Let_def split: option.splits)
next
  assume "cfg (js ''serverUrl'') = Some s \<and> s \<noteq> [] \<and> valid_url s \<and>
    cfg (js ''universe'') = Some u \<and> u \<noteq> [] \<and> list_all is_word_char u"
  then show "constructor_checked valid_url cfg =
      Inr \<lparr>c_serverUrl = s, c_universe = u, c_token = None\<rparr>"
    by (simp add: constructor_checked_def str_falsy_def tmpl_def test_word_chars_def Let_def)
next
  assume "cfg (js ''serverUrl'') = Some s \<and> s \<noteq> [] \<and> cfg (js ''universe'') = Some u \<and> u \<noteq> [] \<and>
    creds (generateCredentialName s) = Some t \<and> t \<noteq> []"
  then show "init_plain p creds cfg =
      (Inr (), p\<lparr>p_serverUrl := Some s, p_universe := Some u, p_token := Some t\<rparr>)"
    by (simp add: init_plain_def str_falsy_def tmpl_def Let_def)
next
  assume "str_falsy (cfg (js ''serverUrl'')) \<or> str_falsy (cfg (js ''universe''))"
  then show "\<exists>e. init_plain p creds cfg = (Inl e, p) \<and> ConfigError e"
    by (auto simp: init_plain_def ConfigError_def)
qed

theorem constructor_checked_validates_witness:
  "constructor_checked accepts_https store_config = Inr store_fresh \<and>
   (\<exists>e. constructor_checked accepts_https bad_url_config = Inl e \<and> ConfigError e) \<and>
   (\<exists>e. constructor_checked accepts_https bad_name_config = Inl e \<and> ConfigError e) \<and>
   (\<exists>e. constructor_checked accepts_https Map.empty = Inl e \<and> ConfigError e) \<and>
   fst (init_plain (constructor_plain bad_name_config) store_credentials bad_name_config) = Inr () \<and>
   (\<exists>e. init_plain (constructor_plain Map.empty) store_credentials Map.empty =
      (Inl e, constructor_plain Map.empty) \<and> ConfigError e)"
proof -
  have fresh: "\<lparr>c_serverUrl = js ''https://store.example'', c_universe = js ''myuni'',
      c_token = None\<rparr> = store_fresh"
    by (simp add: store_fresh_def)
  show ?thesis
    using
      constructor_checked_validates [where cfg = store_config and valid_url = accepts_https
        and s = "js ''https://store.example''" and u = "js ''myuni''"]
      constructor_checked_validates [where cfg = bad_url_config and valid_url = accepts_https
        and s = "js ''not a url''" and u = "js ''myuni''"]
      constructor_checked_validates [where cfg = bad_name_config and valid_url = accepts_https
        and s = "js ''https://store.example''" and u = "js ''my uni!''"
        and p = "constructor_plain bad_name_config" and creds = store_credentials
        and t = "js ''secret''"]
      constructor_checked_validates [where cfg = Map.empty and valid_url = accepts_https
        and p = "constructor_plain Map.empty" and creds = store_credentials]
    by (simp add: store_config_fields bad_url_config_fields bad_name_config_fields
        my_uni_not_word myuni_word literals_nonempty accepts_https_examples fresh store_name
        store_credentials_name str_falsy_def)
qed

text \<open>
  Claim C4 as stated fails on the client of \<^verbatim>\<open>src/index.ts\<close>: the universe name
  \<^verbatim>\<open>my uni!\<close> has code units outside the class, and construction and \<^verbatim>\<open>init\<close> both
  succeed and store it.
\<close>

theorem init_plain_accepts_bad_name_counterexample:
  "bad_name_config (js ''universe'') = Some (js ''my uni!'') \<and>
   \<not> list_all is_word_char (js ''my uni!'') \<and>
   init_plain (constructor_plain bad_name_config) store_credentials bad_name_config =
     (Inr (),
      \<lparr>p_config = bad_name_config, p_serverUrl = Some (js ''https://store.example''),
       p_universe = Some (js ''my uni!''), p_token = Some (js ''secret'')\<rparr>)"
proof -
  have "\<not> list_all is_word_char (js ''my uni!'')"
    using my_uni_not_word by (simp add: list_all_iff)
  then show ?thesis
    by (simp add: bad_name_config_fields init_plain_def str_falsy_def tmpl_def literals_nonempty
        store_name store_credentials_name constructor_plain_def Let_def)
qed

text \<open>
  Claim C7. With the credential of the derived name absent or empty, \<^verbatim>\<open>init\<close> fails
  with the credential error and returns the client as it was, so no token is set. With a
  non-empty credential it succeeds and the client holds the server URL, the universe name
  and the token. A further successful call leaves the state that this call alone gives:
  the latest values overwrite the earlier ones. For the client of \<^verbatim>\<open>src/index.ts\<close>,
  whose \<^verbatim>\<open>init\<close> also reads the configuration, this is under a configuration with both
  entries present.
\<close>

theorem init_credential:
  "(str_falsy (creds (generateCredentialName (c_serverUrl c))) \<longrightarrow>
      init_checked c creds =
        (Inl (CredentialError (generateCredentialName (c_serverUrl c))), c)) \<and>
   (creds (generateCredentialName (c_serverUrl c)) = Some t \<and> t \<noteq> [] \<longrightarrow>
      init_checked c creds = (Inr (), c\<lparr>c_token := Some t\<rparr>)) \<and>
   (fst (init_checked (snd (init_checked c creds)) creds') = Inr () \<longrightarrow>
      snd (init_checked (snd (init_checked c creds)) creds') = snd (init_checked c creds')) \<and>
   (cfg (js ''serverUrl'') = Some s \<and> s \<noteq> [] \<and> cfg (js ''universe'') = Some u \<and> u \<noteq> [] \<longrightarrow>
      (str_falsy (creds (generateCredentialName s)) \<longrightarrow>
         init_plain p creds cfg = (Inl (CredentialError (generateCredentialName s)), p)) \<and>
      (creds (generateCredentialName s) = Some t \<and> t \<noteq> [] \<longrightarrow>
         init_plain p creds cfg =
           (Inr (), p\<lparr>p_serverUrl := Some s, p_universe := Some u, p_token := Some t\<rparr>))) \<and>
   (fst (init_plain (snd (init_plain p creds cfg)) creds' cfg') = Inr () \<longrightarrow>
      snd (init_plain (snd (init_plain p creds cfg)) creds' cfg') =
        snd (init_plain p creds' cfg'))"
proof (intro conjI impI)
  assume "str_falsy (creds (generateCredentialName (c_serverUrl c)))"
  then show "init_checked c creds =
      (Inl (CredentialError (generateCredentialName (c_serverUrl c))), c)"
    by (simp add: init_checked_def CredentialError_def Let_def)
next
  assume "creds (generateCredentialName (c_serverUrl c)) = Some t \<and> t \<noteq> []"
  then show "init_checked c creds = (Inr (), c\<lparr>c_token := Some t\<rparr>)"
    by (simp add: init_checked_def str_falsy_def Let_def)
next
  assume "fst (init_checked (snd (init_checked c creds)) creds') = Inr ()"
  then show "snd (init_checked (snd (init_checked c creds)) creds') =
      snd (init_checked c creds')"
    by (simp add: init_checked_def Let_def split: if_splits)
next
  assume cfg: "cfg (js ''serverUrl'') = Some s \<and> s \<noteq> [] \<and>
      cfg (js ''universe'') = Some u \<and> u \<noteq> []"
  assume "str_falsy (creds (generateCredentialName s))"
  with cfg show "init_plain p creds cfg =
      (Inl (CredentialError (generateCredentialName s)), p)"
    by (simp add: init_plain_def CredentialError_def str_falsy_def tmpl_def Let_def)
next
  assume cfg: "cfg (js ''serverUrl'') = Some s \<and> s \<noteq> [] \<and>
      cfg (js ''universe'') = Some u \<and> u \<noteq> []"
  assume "creds (generateCredentialName s) = Some t \<and> t \<noteq> []"
  with cfg show "init_plain p creds cfg =
      (Inr (), p\<lparr>p_serverUrl := Some s, p_universe := Some u, p_token := Some t\<rparr>)"
    by (simp add: init_plain_def str_falsy_def tmpl_def Let_def)
next
  assume "fst (init_plain (snd (init_plain p creds cfg)) creds' cfg') = Inr ()"
  then show "snd (init_plain (snd (init_plain p creds cfg)) creds' cfg') =
      snd (init_plain p creds' cfg')"
    by (simp add: init_plain_def Let_def split: if_splits)
qed

theorem init_credential_witness:
  "init_checked store_fresh Map.empty =
     (Inl (CredentialError (js ''universe_token_https___store_example'')), store_fresh) \<and>
   init_checked store_fresh store_credentials = (Inr (), store_checked) \<and>
   snd (init_checked (snd (init_checked store_fresh store_credentials)) rotated_credentials) =
     store_fresh\<lparr>c_token := Some (js ''rotated'')\<rparr> \<and>
   init_plain (constructor_plain store_config) Map.empty store_config =
     (Inl (CredentialError (js ''universe_token_https___store_example'')),
      constructor_plain store_config) \<and>
   init_plain (constructor_plain store_config) store_credentials store_config =
     (Inr (), store_plain) \<and>
   snd (init_plain (snd (init_plain (constructor_plain store_config) store_credentials
                           store_config)) rotated_credentials store_config) =
     store_plain\<lparr>p_token := Some (js ''rotated'')\<rparr>"
proof -
  have k: "js ''serverUrl'' \<noteq> js ''universe''"
    by (simp add: js_def)
  have cfg: "store_config (js ''serverUrl'') = Some (js ''https://store.example'')"
    "store_config (js ''universe'') = Some (js ''myuni'')"
    "js ''https://store.example'' \<noteq> []" "js ''myuni'' \<noteq> []"
    using k by (simp_all add: store_config_def) (simp_all add: js_def)
  have cr: "store_credentials (js ''universe_token_https___store_example'') = Some (js ''secret'')"
    "rotated_credentials (js ''universe_token_https___store_example'') = Some (js ''rotated'')"
    "js ''secret'' \<noteq> []" "js ''rotated'' \<noteq> []"
    by (simp_all add: store_credentials_def rotated_credentials_def) (simp_all add: js_def)
  have upd: "store_fresh\<lparr>c_token := Some (js ''secret'')\<rparr> = store_checked"
    "constructor_plain store_config
       \<lparr>p_serverUrl := Some (js ''https://store.example''), p_universe := Some (js ''myuni''),
        p_token := Some (js ''secret'')\<rparr> = store_plain"
    "store_plain
       \<lparr>p_serverUrl := Some (js ''https://store.example''), p_universe := Some (js ''myuni''),
        p_token := Some (js ''rotated'')\<rparr> = store_plain\<lparr>p_token := Some (js ''rotated'')\<rparr>"
    "store_checked\<lparr>c_token := Some (js ''rotated'')\<rparr> = store_fresh\<lparr>c_token := Some (js ''rotated'')\<rparr>"
    "c_serverUrl store_checked = js ''https://store.example''"
    by (simp_all add: store_fresh_def store_checked_def constructor_plain_def store_plain_def)
  show ?thesis
    using
      init_credential [where c = store_fresh and creds = Map.empty and cfg = store_config
        and s = "js ''https://store.example''" and u = "js ''myuni''"
        and p = "constructor_plain store_config"]
      init_credential [where c = store_fresh and creds = store_credentials
        and t = "js ''secret''" and creds' = rotated_credentials and cfg = store_config
        and s = "js ''https://store.example''" and u = "js ''myuni''"
        and p = "constructor_plain store_config" and cfg' = store_config]
      init_credential [where c = store_checked and creds = rotated_credentials
        and t = "js ''rotated''" and cfg = store_config
        and s = "js ''https://store.example''" and u = "js ''myuni''"
        and p = store_plain]
    by (simp add: store_name store_fresh_url cfg cr upd str_falsy_def)
qed

section \<open>The transport helper\<close>

lemma fetch_simp: "fetch net req tr = (net (length (requests tr)) req, tr @ [Fetch req])"
  by (simp add: fetch_def)

lemma requests_append: "requests (tr @ tr') = requests tr @ requests tr'"
  by (induction tr rule: requests.induct) simp_all

lemma attempt_trace: "snd (attempt net req tr) = tr @ [Fetch req]"
  by (simp add: attempt_def fetch_def split: outcome.split)

lemma attempt_result:
  "fst (attempt net req tr) =
     (case net (length (requests tr)) req of
        Rejected e \<Rightarrow> Inl e
      | Responded resp \<Rightarrow> handleResponse resp)"
  by (simp add: attempt_def fetch_def split: outcome.split)

lemma fetchApi_checked_unfold:
  "fetchApi_checked net c endpoint meth body tr =
     (let req = request_of (c_serverUrl c) (tmpl (c_token c)) endpoint meth body in
      case fst (attempt net req tr) of
        Inr v \<Rightarrow> (Inr v, tr @ [Fetch req])
      | Inl e \<Rightarrow>
          (case fst (attempt net req (tr @ [Fetch req, Delay 1000])) of
             Inr v \<Rightarrow> (Inr v, tr @ [Fetch req, Delay 1000, Fetch req])
           | Inl e2 \<Rightarrow> (Inl (TransportError (message e2)), tr @ [Fetch req, Delay 1000, Fetch req])))"
proof -
  define req where "req = request_of (c_serverUrl c) (tmpl (c_token c)) endpoint meth body"
  have a1: "attempt net req tr = (fst (attempt net req tr), tr @ [Fetch req])"
    by (metis attempt_trace prod.collapse)
  have a2: "attempt net req (tr @ [Fetch req, Delay 1000]) =
      (fst (attempt net req (tr @ [Fetch req, Delay 1000])), tr @ [Fetch req, Delay 1000, Fetch req])"
    by (metis attempt_trace prod.collapse append.assoc append_Cons append_Nil)
  have "fetchApi_checked net c endpoint meth body tr =
      (case attempt net req tr of
           (Inr v, tr1) \<Rightarrow> (Inr v, tr1)
         | (Inl error, tr1) \<Rightarrow>
             (case attempt net req (tr1 @ [Delay 1000]) of
                (Inr v, tr2) \<Rightarrow> (Inr v, tr2)
              | (Inl secondError, tr2) \<Rightarrow>
                  (Inl (Error (js ''API request failed after retry: '' @ message secondError)),
                   tr2)))"
    unfolding fetchApi_checked_def req_def request_of_def Let_def
    by (rule refl)
  also have "\<dots> = (case fst (attempt net req tr) of
        Inr v \<Rightarrow> (Inr v, tr @ [Fetch req])
      | Inl e \<Rightarrow>
          (case fst (attempt net req (tr @ [Fetch req, Delay 1000])) of
             Inr v \<Rightarrow> (Inr v, tr @ [Fetch req, Delay 1000, Fetch req])
           | Inl e2 \<Rightarrow> (Inl (TransportError (message e2)), tr @ [Fetch req, Delay 1000, Fetch req])))"
    apply (subst a1)
    apply (simp only: prod.case)
    apply (cases "fst (attempt net req tr)")
     apply (simp only: sum.case append.assoc append_Cons append_Nil)
     apply (subst a2)
     apply (simp add: TransportError_def split: sum.split)
    apply simp
    done
  finally show ?thesis
    unfolding req_def Let_def .
qed

lemma fetchApi_plain_unfold:
  "fetchApi_plain net c endpoint meth body tr =
     (let req = request_of (tmpl (p_serverUrl c)) (tmpl (p_token c)) endpoint meth body in
      (case net (length (requests tr)) req of
         Rejected e \<Rightarrow> Inl e
       | Responded resp \<Rightarrow>
           (if ok resp then json_result resp
            else Inl (Error (js ''API request to '' @ req_url req @ js '' failed: '' @
                             statusText resp))),
       tr @ [Fetch req]))"
  by (simp add: fetchApi_plain_def request_of_def fetch_def Let_def
      split: outcome.split)

lemma fetchApi_checked_trace:
  "snd (fetchApi_checked net c endpoint meth body tr) =
      tr @ [Fetch (request_of (c_serverUrl c) (tmpl (c_token c)) endpoint meth body)] \<or>
   snd (fetchApi_checked net c endpoint meth body tr) =
      tr @ [Fetch (request_of (c_serverUrl c) (tmpl (c_token c)) endpoint meth body),
            Delay 1000,
            Fetch (request_of (c_serverUrl c) (tmpl (c_token c)) endpoint meth body)]"
  by (simp add: fetchApi_checked_unfold Let_def split: sum.split)

lemma fetchApi_plain_trace:
  "snd (fetchApi_plain net c endpoint meth body tr) =
      tr @ [Fetch (request_of (tmpl (p_serverUrl c)) (tmpl (p_token c)) endpoint meth body)]"
  by (simp add: fetchApi_plain_unfold Let_def)

lemma void_fst: "fst (void r) = (case fst r of Inl e \<Rightarrow> Inl e | Inr v \<Rightarrow> Inr ())"
  by (cases r) (simp add: void_def split: sum.split)

lemma void_snd: "snd (void r) = snd r"
  by (cases r) (simp add: void_def split: sum.split)


lemma delete_request_of:
  "request_of base tok (js ''/thing/'' @ u @ js ''/'' @ fileId) (js ''DELETE'') None =
     spec_delete_request base u tok fileId"
  by (simp add: request_of_def spec_delete_request_def spec_headers_def truthy_def)

lemma handleResponse_ok_response: "handleResponse ok_response = Inr (JObj [])"
  by (simp add: handleResponse_def ok_response_def ok_def)

lemma error_message_cases:
  "json_result resp = Inl e \<Longrightarrow> error_message resp = JStr (statusText resp)"
  "json_result resp = Inr (JObj kvs) \<Longrightarrow> map_of kvs (js ''error'') = Some v \<Longrightarrow> ToBoolean v \<Longrightarrow>
     error_message resp = v"
  "json_result resp = Inr (JObj kvs) \<Longrightarrow> \<not> truthy (map_of kvs (js ''error'')) \<Longrightarrow>
     map_of kvs (js ''description'') = Some v \<Longrightarrow> ToBoolean v \<Longrightarrow> error_message resp = v"
  "json_result resp = Inr (JObj kvs) \<Longrightarrow> \<not> truthy (map_of kvs (js ''error'')) \<Longrightarrow>
     \<not> truthy (map_of kvs (js ''description'')) \<Longrightarrow> error_message resp = JStr (statusText resp)"
  by (simp_all add: error_message_def truthy_def split: option.splits)

lemma handleResponse_fails: "\<not> ok resp \<Longrightarrow> \<exists>e. handleResponse resp = Inl e"
  by (cases "ToString (error_message resp)") (simp_all add: handleResponse_def)

lemma error_message_not_object:
  "json_result resp = Inr j \<Longrightarrow>
   j = JNull \<or> j = JBool b \<or> j = JNum nz digits \<or> j = JStr s \<or> j = JArr xs \<Longrightarrow>
   error_message resp = JStr (statusText resp)"
  by (auto simp: error_message_def truthy_def)

lemma ToString_object_with_toString:
  "js ''toString'' \<in> fst ` set kvs \<Longrightarrow>
   ToString (JObj kvs) = Inl (TypeError (js ''Cannot convert object to primitive value''))"
  by simp

text \<open>
  Claim C6, as amended. In the documented client \<^verbatim>\<open>handleResponse\<close> gives, for a response
  with a success status, what \<^verbatim>\<open>response.json()\<close> gives: the parsed body, or the parse
  error when the body is no JSON. It throws on every response with another status. The
  value it reports is the body's \<^verbatim>\<open>error\<close> property when the body parses to an object and
  that property is truthy, else the \<^verbatim>\<open>description\<close> property when that is truthy. The
  error thrown is \<^verbatim>\<open>API request failed: <status> - <m>\<close> with \<open>m\<close> the text the template
  literal gives that value, which is the value itself when it is a string; when the value
  has no such text, as an object with an own \<^verbatim>\<open>toString\<close> property, the TypeError of the
  conversion is thrown instead. In every other case \<open>m\<close> is the status text: the body is no
  JSON, or parses to \<^verbatim>\<open>null\<close>, a boolean, a number, a string or an array, or is an object
  with neither property truthy. The client of \<^verbatim>\<open>src/index.ts\<close> does not read the body of
  a response with an error status: its error is
  \<^verbatim>\<open>API request to <url> failed: <status text>\<close>, and for a success status it gives what
  \<^verbatim>\<open>response.json()\<close> gives.
\<close>

theorem handleResponse_error_message:
  "(ok resp \<longrightarrow> handleResponse resp = json_result resp) \<and>
   (\<not> ok resp \<longrightarrow> (\<exists>e. handleResponse resp = Inl e)) \<and>
   (\<not> ok resp \<and> json_result resp = Inl e \<longrightarrow>
      handleResponse resp = Inl (ApiError (status resp) (statusText resp))) \<and>
   (\<not> ok resp \<and> json_result resp = Inr j \<and>
    (j = JNull \<or> j = JBool b \<or> j = JNum nz digits \<or> j = JStr s \<or> j = JArr xs) \<longrightarrow>
      handleResponse resp = Inl (ApiError (status resp) (statusText resp))) \<and>
   (\<not> ok resp \<and> json_result resp = Inr (JObj kvs) \<and> map_of kvs (js ''error'') = Some v \<and>
    ToBoolean v \<longrightarrow>
      handleResponse resp =
        (case ToString v of Inl te \<Rightarrow> Inl te | Inr m \<Rightarrow> Inl (ApiError (status resp) m))) \<and>
   (\<not> ok resp \<and> json_result resp = Inr (JObj kvs) \<and>
    map_of kvs (js ''error'') = Some (JStr m) \<and> m \<noteq> [] \<longrightarrow>
      handleResponse resp = Inl (ApiError (status resp) m)) \<and>
   (\<not> ok resp \<and> json_result resp = Inr (JObj kvs) \<and>
    map_of kvs (js ''error'') = Some (JObj kvs') \<and> js ''toString'' \<in> fst ` set kvs' \<longrightarrow>
      handleResponse resp = Inl (TypeError (js ''Cannot convert object to primitive value''))) \<and>
   (\<not> ok resp \<and> json_result resp = Inr (JObj kvs) \<and> \<not> truthy (map_of kvs (js ''error'')) \<and>
    map_of kvs (js ''description'') = Some v \<and> ToBoolean v \<longrightarrow>
      handleResponse resp =
        (case ToString v of Inl te \<Rightarrow> Inl te | Inr m \<Rightarrow> Inl (ApiError (status resp) m))) \<and>
   (\<not> ok resp \<and> json_result resp = Inr (JObj kvs) \<and> \<not> truthy (map_of kvs (js ''error'')) \<and>
    map_of kvs (js ''description'') = Some (JStr m) \<and> m \<noteq> [] \<longrightarrow>
      handleResponse resp = Inl (ApiError (status resp) m)) \<and>
   (\<not> ok resp \<and> json_result resp = Inr (JObj kvs) \<and> \<not> truthy (map_of kvs (js ''error'')) \<and>
    \<not> truthy (map_of kvs (js ''description'')) \<longrightarrow>
      handleResponse resp = Inl (ApiError (status resp) (statusText resp))) \<and>
   (net (length (requests tr))
      (request_of (tmpl (p_serverUrl p)) (tmpl (p_token p)) endpoint meth body) =
      Responded resp \<longrightarrow>
      fst (fetchApi_plain net p endpoint meth body tr) =
        (if ok resp then json_result resp
         else Inl (Error (js ''API request to '' @ tmpl (p_serverUrl p) @ endpoint @
                          js '' failed: '' @ statusText resp))))"
proof (intro conjI impI)
  assume "ok resp"
  then show "handleResponse resp = json_result resp"
    by (simp add: handleResponse_def)
next
  assume "\<not> ok resp"
  then show "\<exists>e. handleResponse resp = Inl e"
    by (rule handleResponse_fails)
next
  assume "\<not> ok resp \<and> json_result resp = Inl e"
  then show "handleResponse resp = Inl (ApiError (status resp) (statusText resp))"
    by (simp add: handleResponse_def ApiError_def error_message_cases(1))
next
  assume a: "\<not> ok resp \<and> json_result resp = Inr j \<and>
    (j = JNull \<or> j = JBool b \<or> j = JNum nz digits \<or> j = JStr s \<or> j = JArr xs)"
  then have "error_message resp = JStr (statusText resp)"
    using error_message_not_object [of resp j b nz digits s xs] by blast
  with a show "handleResponse resp = Inl (ApiError (status resp) (statusText resp))"
    by (simp add: handleResponse_def ApiError_def)
next
  assume "\<not> ok resp \<and> json_result resp = Inr (JObj kvs) \<and> map_of kvs (js ''error'') = Some v \<and>
    ToBoolean v"
  then show "handleResponse resp =
      (case ToString v of Inl te \<Rightarrow> Inl te | Inr m \<Rightarrow> Inl (ApiError (status resp) m))"
    by (simp add: handleResponse_def ApiError_def error_message_cases(2) split: sum.split)
next
  assume "\<not> ok resp \<and> json_result resp = Inr (JObj kvs) \<and>
    map_of kvs (js ''error'') = Some (JStr m) \<and> m \<noteq> []"
  then show "handleResponse resp = Inl (ApiError (status resp) m)"
    by (simp add: handleResponse_def ApiError_def error_message_cases(2))
next
  assume a: "\<not> ok resp \<and> json_result resp = Inr (JObj kvs) \<and>
    map_of kvs (js ''error'') = Some (JObj kvs') \<and> js ''toString'' \<in> fst ` set kvs'"
  then have "error_message resp = JObj kvs'"
    by (simp add: error_message_cases(2))
  with a show "handleResponse resp =
      Inl (TypeError (js ''Cannot convert object to primitive value''))"
    by (simp add: handleResponse_def ToString_object_with_toString)
next
  assume "\<not> ok resp \<and> json_result resp = Inr (JObj kvs) \<and> \<not> truthy (map_of kvs (js ''error'')) \<and>
    map_of kvs (js ''description'') = Some v \<and> ToBoolean v"
  then show "handleResponse resp =
      (case ToString v of Inl te \<Rightarrow> Inl te | Inr m \<Rightarrow> Inl (ApiError (status resp) m))"
    by (simp add: handleResponse_def ApiError_def error_message_cases(3) split: sum.split)
next
  assume "\<not> ok resp \<and> json_result resp = Inr (JObj kvs) \<and> \<not> truthy (map_of kvs (js ''error'')) \<and>
    map_of kvs (js ''description'') = Some (JStr m) \<and> m \<noteq> []"
  then show "handleResponse resp = Inl (ApiError (status resp) m)"
    by (simp add: handleResponse_def ApiError_def error_message_cases(3))
next
  assume "\<not> ok resp \<and> json_result resp = Inr (JObj kvs) \<and> \<not> truthy (map_of kvs (js ''error'')) \<and>
    \<not> truthy (map_of kvs (js ''description''))"
  then show "handleResponse resp = Inl (ApiError (status resp) (statusText resp))"
    by (simp add: handleResponse_def ApiError_def error_message_cases(4))
next
  assume "net (length (requests tr))
      (request_of (tmpl (p_serverUrl p)) (tmpl (p_token p)) endpoint meth body) = Responded resp"
  then show "fst (fetchApi_plain net p endpoint meth body tr) =
        (if ok resp then json_result resp
         else Inl (Error (js ''API request to '' @ tmpl (p_serverUrl p) @ endpoint @
                          js '' failed: '' @ statusText resp)))"
    by (simp add: fetchApi_plain_unfold Let_def request_of_def)
qed

theorem handleResponse_error_message_witness:
  "handleResponse ok_response = Inr (JObj []) \<and>
   handleResponse no_content_response =
     Inl (SyntaxError (js ''Unexpected end of JSON input'')) \<and>
   (\<exists>e. handleResponse gone_response = Inl e) \<and>
   handleResponse bad_gateway_response =
     Inl (Error (js ''API request failed: 502 - Bad Gateway'')) \<and>
   handleResponse null_body_response =
     Inl (Error (js ''API request failed: 503 - Service Unavailable'')) \<and>
   handleResponse array_body_response =
     Inl (Error (js ''API request failed: 503 - Service Unavailable'')) \<and>
   handleResponse not_found_response =
     Inl (Error (js ''API request failed: 404 - not found'')) \<and>
   handleResponse list_error_response =
     Inl (Error (js ''API request failed: 400 - id,text'')) \<and>
   handleResponse unprintable_error_response =
     Inl (TypeError (js ''Cannot convert object to primitive value'')) \<and>
   handleResponse conflict_response =
     Inl (Error (js ''API request failed: 409 - universe is locked'')) \<and>
   handleResponse object_description_response =
     Inl (Error (js ''API request failed: 400 - [object Object]'')) \<and>
   handleResponse server_error_response =
     Inl (Error (js ''API request failed: 500 - Internal Server Error'')) \<and>
   fst (fetchApi_plain (always gone_response) store_plain (js ''/universe/myuni'') (js ''DELETE'')
          None []) =
     Inl (Error (js ''API request to https://store.example/universe/myuni failed: Gone''))"
proof -
  have f: "json_result ok_response = Inr (JObj [])"
    "json_result no_content_response = Inl (SyntaxError (js ''Unexpected end of JSON input''))"
    "json_result not_found_response = Inr (JObj [(js ''error'', JStr (js ''not found''))])"
    "json_result conflict_response =
       Inr (JObj [(js ''description'', JStr (js ''universe is locked''))])"
    "json_result bad_gateway_response = Inl (SyntaxError (js ''Unexpected token < in JSON''))"
    "json_result null_body_response = Inr JNull"
    "json_result array_body_response = Inr (JArr [JStr (js ''error'')])"
    "json_result list_error_response =
       Inr (JObj [(js ''error'', JArr [JStr (js ''id''), JStr (js ''text'')])])"
    "json_result unprintable_error_response =
       Inr (JObj [(js ''error'', JObj [(js ''toString'', JNum True (js ''1''))])])"
    "json_result object_description_response =
       Inr (JObj [(js ''error'', JStr []), (js ''description'', JObj [])])"
    "json_result server_error_response = Inr (JObj [])"
    "status not_found_response = 404" "status conflict_response = 409"
    "status bad_gateway_response = 502" "status server_error_response = 500"
    "status null_body_response = 503" "status array_body_response = 503"
    "status list_error_response = 400" "status object_description_response = 400"
    "statusText bad_gateway_response = js ''Bad Gateway''"
    "statusText gone_response = js ''Gone''"
    "statusText null_body_response = js ''Service Unavailable''"
    "statusText array_body_response = js ''Service Unavailable''"
    "statusText server_error_response = js ''Internal Server Error''"
    by (simp_all add: ok_response_def no_content_response_def not_found_response_def
        conflict_response_def bad_gateway_response_def gone_response_def
        server_error_response_def null_body_response_def array_body_response_def
        list_error_response_def unprintable_error_response_def object_description_response_def)
  have ne: "js ''not found'' \<noteq> []" "js ''universe is locked'' \<noteq> []"
    "js ''error'' \<noteq> js ''description''" "js ''description'' \<noteq> js ''error''"
    by (simp_all add: js_def)
  have cat: "js ''API request failed: '' @ js ''404'' @ js '' - '' @ js ''not found'' =
      js ''API request failed: 404 - not found''"
    "js ''API request failed: '' @ js ''409'' @ js '' - '' @ js ''universe is locked'' =
      js ''API request failed: 409 - universe is locked''"
    "js ''API request failed: '' @ js ''502'' @ js '' - '' @ js ''Bad Gateway'' =
      js ''API request failed: 502 - Bad Gateway''"
    "js ''API request failed: '' @ js ''500'' @ js '' - '' @ js ''Internal Server Error'' =
      js ''API request failed: 500 - Internal Server Error''"
    "js ''API request failed: '' @ js ''503'' @ js '' - '' @ js ''Service Unavailable'' =
      js ''API request failed: 503 - Service Unavailable''"
    "js ''API request failed: '' @ js ''400'' @ js '' - '' @ js ''id'' @ js '','' @ js ''text'' =
      js ''API request failed: 400 - id,text''"
    "js ''API request failed: '' @ js ''400'' @ js '' - '' @ js ''[object Object]'' =
      js ''API request failed: 400 - [object Object]''"
    "js ''API request to '' @ js ''https://store.example'' @ js ''/universe/myuni'' @
       js '' failed: '' @ js ''Gone'' =
      js ''API request to https://store.example/universe/myuni failed: Gone''"
    by (simp_all add: js_def)
  note c = handleResponse_error_message
  note ok_case = c [THEN conjunct1, rule_format]
  note fails_case = c [THEN conjunct2, THEN conjunct1, rule_format]
  note rest = c [THEN conjunct2, THEN conjunct2]
  note unparsed_case = rest [THEN conjunct1, rule_format]
  note not_object_case = rest [THEN conjunct2, THEN conjunct1, rule_format]
  note rest2 = rest [THEN conjunct2, THEN conjunct2]
  note error_case = rest2 [THEN conjunct1, rule_format]
  note error_string_case = rest2 [THEN conjunct2, THEN conjunct1, rule_format]
  note error_unprintable_case = rest2 [THEN conjunct2, THEN conjunct2, THEN conjunct1, rule_format]
  note rest3 = rest2 [THEN conjunct2, THEN conjunct2, THEN conjunct2]
  note description_case = rest3 [THEN conjunct1, rule_format]
  note description_string_case = rest3 [THEN conjunct2, THEN conjunct1, rule_format]
  note neither_case = rest3 [THEN conjunct2, THEN conjunct2, THEN conjunct1, rule_format]
  note plain_case = rest3 [THEN conjunct2, THEN conjunct2, THEN conjunct2, rule_format]
  have "handleResponse ok_response = json_result ok_response"
    by (rule ok_case) (simp add: response_oks)
  then have w1: "handleResponse ok_response = Inr (JObj [])"
    by (simp add: f)
  have "handleResponse no_content_response = json_result no_content_response"
    by (rule ok_case) (simp add: response_oks)
  then have w2: "handleResponse no_content_response =
      Inl (SyntaxError (js ''Unexpected end of JSON input''))"
    by (simp add: f)
  have w3: "\<exists>e. handleResponse gone_response = Inl e"
    by (rule fails_case) (simp add: response_oks)
  have "handleResponse bad_gateway_response =
      Inl (ApiError (status bad_gateway_response) (statusText bad_gateway_response))"
    by (rule unparsed_case) (simp add: response_oks f)
  then have w4: "handleResponse bad_gateway_response =
      Inl (Error (js ''API request failed: 502 - Bad Gateway''))"
    by (simp add: ApiError_def f show_status cat)
  have "handleResponse null_body_response =
      Inl (ApiError (status null_body_response) (statusText null_body_response))"
    by (rule not_object_case [where j = JNull]) (simp add: response_oks f)
  then have w5: "handleResponse null_body_response =
      Inl (Error (js ''API request failed: 503 - Service Unavailable''))"
    by (simp add: ApiError_def f show_status cat)
  have "handleResponse array_body_response =
      Inl (ApiError (status array_body_response) (statusText array_body_response))"
    by (rule not_object_case [where j = "JArr [JStr (js ''error'')]"
          and xs = "[JStr (js ''error'')]"])
      (simp add: response_oks f)
  then have w6: "handleResponse array_body_response =
      Inl (Error (js ''API request failed: 503 - Service Unavailable''))"
    by (simp add: ApiError_def f show_status cat)
  have "handleResponse not_found_response =
      Inl (ApiError (status not_found_response) (js ''not found''))"
    by (rule error_string_case [where kvs = "[(js ''error'', JStr (js ''not found''))]"])
      (simp add: response_oks f ne)
  then have w7: "handleResponse not_found_response =
      Inl (Error (js ''API request failed: 404 - not found''))"
    by (simp add: ApiError_def f show_status cat)
  have "handleResponse list_error_response =
      (case ToString (JArr [JStr (js ''id''), JStr (js ''text'')]) of
         Inl te \<Rightarrow> Inl te
       | Inr m \<Rightarrow> Inl (ApiError (status list_error_response) m))"
    by (rule error_case
          [where kvs = "[(js ''error'', JArr [JStr (js ''id''), JStr (js ''text'')])]"])
      (simp add: response_oks f)
  then have w8: "handleResponse list_error_response =
      Inl (Error (js ''API request failed: 400 - id,text''))"
    by (simp add: ApiError_def f show_status cat)
  have w9: "handleResponse unprintable_error_response =
      Inl (TypeError (js ''Cannot convert object to primitive value''))"
    by (rule error_unprintable_case
          [where kvs = "[(js ''error'', JObj [(js ''toString'', JNum True (js ''1''))])]"
            and kvs' = "[(js ''toString'', JNum True (js ''1''))]"])
      (simp add: response_oks f)
  have "handleResponse conflict_response =
      Inl (ApiError (status conflict_response) (js ''universe is locked''))"
    by (rule description_string_case
          [where kvs = "[(js ''description'', JStr (js ''universe is locked''))]"])
      (simp add: response_oks f ne truthy_def)
  then have w10: "handleResponse conflict_response =
      Inl (Error (js ''API request failed: 409 - universe is locked''))"
    by (simp add: ApiError_def f show_status cat)
  have "handleResponse object_description_response =
      (case ToString (JObj []) of
         Inl te \<Rightarrow> Inl te
       | Inr m \<Rightarrow> Inl (ApiError (status object_description_response) m))"
    by (rule description_case
          [where kvs = "[(js ''error'', JStr []), (js ''description'', JObj [])]"])
      (simp add: response_oks f ne truthy_def)
  then have w11: "handleResponse object_description_response =
      Inl (Error (js ''API request failed: 400 - [object Object]''))"
    by (simp add: ApiError_def f show_status cat)
  have "handleResponse server_error_response =
      Inl (ApiError (status server_error_response) (statusText server_error_response))"
    by (rule neither_case [where kvs = "[]"]) (simp add: response_oks f truthy_def)
  then have w12: "handleResponse server_error_response =
      Inl (Error (js ''API request failed: 500 - Internal Server Error''))"
    by (simp add: ApiError_def f show_status cat)
  have "fst (fetchApi_plain (always gone_response) store_plain (js ''/universe/myuni'')
      (js ''DELETE'') None []) =
      (if ok gone_response then json_result gone_response
       else Inl (Error (js ''API request to '' @ tmpl (p_serverUrl store_plain) @
                        js ''/universe/myuni'' @ js '' failed: '' @ statusText gone_response)))"
    by (rule plain_case) (simp add: always_def)
  then have w13: "fst (fetchApi_plain (always gone_response) store_plain (js ''/universe/myuni'')
      (js ''DELETE'') None []) =
      Inl (Error (js ''API request to https://store.example/universe/myuni failed: Gone''))"
    by (simp add: response_oks f store_plain_fields tmpl_def cat)
  show ?thesis
    using w1 w2 w3 w4 w5 w6 w7 w8 w9 w10 w11 w12 w13 by simp
qed

text \<open>
  Claim C6 as stated fails on the client of \<^verbatim>\<open>src/index.ts\<close>. A response 410 with the
  body \<^verbatim>\<open>{"error":"thing was deleted"}\<close> gives an error whose message has the status text
  and neither the status code nor the text of the \<^verbatim>\<open>error\<close> property; and a response 204,
  whose empty body is no JSON, makes the operation fail although the status is a success.
\<close>

theorem plain_error_ignores_body_counterexample:
  "json_result gone_response = Inr (JObj [(js ''error'', JStr (js ''thing was deleted''))]) \<and>
   status gone_response = 410 \<and>
   fst (deleteFile_plain (always gone_response) store_plain (js ''x'') []) =
     Inl (Error (js ''API request to https://store.example/thing/myuni/x failed: Gone'')) \<and>
   \<not> sublist (js ''thing was deleted'')
       (js ''API request to https://store.example/thing/myuni/x failed: Gone'') \<and>
   \<not> sublist (js ''410'')
       (js ''API request to https://store.example/thing/myuni/x failed: Gone'') \<and>
   ok no_content_response \<and>
   fst (addFile_plain (always no_content_response) store_plain (js ''doc1'') (js ''hello world'')
          []) = Inl (SyntaxError (js ''Unexpected end of JSON input''))"
proof -
  have a: "fst (deleteFile_plain (always gone_response) store_plain (js ''x'') []) =
     Inl (Error (js ''API request to https://store.example/thing/myuni/x failed: Gone''))"
    by (simp add: deleteFile_plain_def void_fst fetchApi_plain_unfold Let_def always_def
        response_oks request_of_def store_plain_fields tmpl_def)
      (simp add: gone_response_def js_def)
  have b: "\<not> sublist (js ''thing was deleted'')
       (js ''API request to https://store.example/thing/myuni/x failed: Gone'')"
    by (simp add: js_def sublist_Cons_right)
  have c: "\<not> sublist (js ''410'')
       (js ''API request to https://store.example/thing/myuni/x failed: Gone'')"
    by (simp add: js_def sublist_Cons_right)
  have d: "fst (addFile_plain (always no_content_response) store_plain (js ''doc1'')
      (js ''hello world'') []) = Inl (SyntaxError (js ''Unexpected end of JSON input''))"
    by (simp add: addFile_plain_def void_fst fetchApi_plain_unfold Let_def always_def
        response_oks)
      (simp add: no_content_response_def)
  show ?thesis
    using a b c d by (simp add: response_oks) (simp add: gone_response_def)
qed

text \<open>
  What the retry of the documented client does. After a rejected fetch it waits a second
  and sends the request once more; a second failure is wrapped with its message. The
  \<^verbatim>\<open>catch\<close> also receives what \<^verbatim>\<open>handleResponse\<close> throws, so a response with an error
  status is followed by the same delay and a second request.
\<close>

lemma requests_retry:
  "length (requests (tr @ [Fetch req, Delay 1000])) = Suc (length (requests tr))"
  by (simp add: requests_append)

lemma fetchApi_checked_transport_retry:
  assumes "req = request_of (c_serverUrl c) (tmpl (c_token c)) endpoint meth body"
    and "net (length (requests tr)) req = Rejected e1"
  shows "fetchApi_checked net c endpoint meth body tr =
     (case net (Suc (length (requests tr))) req of
        Rejected e2 \<Rightarrow> Inl (TransportError (message e2))
      | Responded resp \<Rightarrow>
          (case handleResponse resp of
             Inl e2 \<Rightarrow> Inl (TransportError (message e2))
           | Inr v \<Rightarrow> Inr v),
      tr @ [Fetch req, Delay 1000, Fetch req])"
  using assms
  by (simp add: fetchApi_checked_unfold Let_def attempt_result requests_retry
      split: outcome.split sum.split)

lemma fetchApi_checked_retries_error_response:
  assumes "req = request_of (c_serverUrl c) (tmpl (c_token c)) endpoint meth body"
    and "net (length (requests tr)) req = Responded resp" and "\<not> ok resp"
  shows "snd (fetchApi_checked net c endpoint meth body tr) =
     tr @ [Fetch req, Delay 1000, Fetch req]"
proof -
  from \<open>\<not> ok resp\<close> obtain e where "handleResponse resp = Inl e"
    using handleResponse_fails by blast
  with assms show ?thesis
    by (simp add: fetchApi_checked_unfold Let_def attempt_result split: sum.split)
qed

text \<open>
  Claim C1, at the input of the specification's own example: every request is answered
  with 404 and the body \<^verbatim>\<open>{"error":"not found"}\<close>. \<^verbatim>\<open>deleteFile("x")\<close> sends the request,
  waits a second, sends it again, and fails with the message of the second failure wrapped
  as a failure after retry. The claim has one request and no retry here.
\<close>

theorem fetchApi_retries_error_status:
  "deleteFile_checked (always not_found_response) store_checked (js ''x'') [] =
     (Inl (Error (js ''API request failed after retry: API request failed: 404 - not found'')),
      [Fetch (spec_delete_request (js ''https://store.example'') (js ''myuni'') (js ''secret'')
                (js ''x'')),
       Delay 1000,
       Fetch (spec_delete_request (js ''https://store.example'') (js ''myuni'') (js ''secret'')
                (js ''x''))])"
proof -
  have ne: "trim (js ''x'') \<noteq> []"
    by (simp add: trim_empty_iff js_def is_whitespace_def)
  have h: "handleResponse not_found_response =
      Inl (Error (js ''API request failed: 404 - not found''))"
    by (simp add: handleResponse_def response_oks error_message_def)
      (simp add: not_found_response_def show_status truthy_def, simp add: js_def)
  have cat: "js ''API request failed after retry: '' @ js ''API request failed: 404 - not found'' =
      js ''API request failed after retry: API request failed: 404 - not found''"
    by (simp add: js_def)
  show ?thesis
    by (simp add: deleteFile_checked_def ne fetchApi_checked_unfold Let_def attempt_result
        always_def h void_def TransportError_def cat delete_request_of store_checked_fields
        tmpl_def)
qed

section \<open>The operations\<close>




text \<open>
  Claim C2. In both clients \<^verbatim>\<open>updateFile\<close> is \<^verbatim>\<open>addFile\<close>: the same function of the
  network, the client, the file id, the content and the trace so far, hence the same
  requests and the same result or error.
\<close>

theorem updateFile_is_addFile:
  "updateFile_plain = addFile_plain \<and> updateFile_checked = addFile_checked"
  by (simp add: fun_eq_iff updateFile_plain_def updateFile_checked_def)

theorem updateFile_is_addFile_witness:
  "updateFile_plain (always ok_response) store_plain (js ''doc1'') (js ''hello world'') [] =
     addFile_plain (always ok_response) store_plain (js ''doc1'') (js ''hello world'') [] \<and>
   updateFile_checked unreachable store_checked (js ''doc1'') (js ''hello world'') [] =
     addFile_checked unreachable store_checked (js ''doc1'') (js ''hello world'') []"
  using updateFile_is_addFile by simp

text \<open>
  Claim C9. \<^verbatim>\<open>deleteFile\<close> requests the URL that is the server URL, \<^verbatim>\<open>/thing/\<close>, the
  universe name, \<^verbatim>\<open>/\<close> and the file id, one after the other, with the code units of the
  file id unchanged. In the documented client this is for a file id that is not blank (a
  blank one is rejected before any URL is built), and the request may be sent a second
  time by the retry. The witness has a file id with \<^verbatim>\<open>/\<close>, \<^verbatim>\<open>?\<close> and \<^verbatim>\<open>#\<close>, which appear
  in the URL as they are.
\<close>

theorem deleteFile_path_literal:
  "(p_serverUrl p = Some s \<and> p_universe p = Some u \<and> p_token p = Some t \<longrightarrow>
      snd (deleteFile_plain net p fileId tr) =
        tr @ [Fetch (spec_delete_request s u t fileId)]) \<and>
   (c_token c = Some t' \<and> trim fileId \<noteq> [] \<longrightarrow>
      snd (deleteFile_checked net' c fileId tr') =
        tr' @ [Fetch (spec_delete_request (c_serverUrl c) (c_universe c) t' fileId)] \<or>
      snd (deleteFile_checked net' c fileId tr') =
        tr' @ [Fetch (spec_delete_request (c_serverUrl c) (c_universe c) t' fileId),
               Delay 1000,
               Fetch (spec_delete_request (c_serverUrl c) (c_universe c) t' fileId)]) \<and>
   req_url (spec_delete_request s u t fileId) = s @ js ''/thing/'' @ u @ js ''/'' @ fileId"
proof (intro conjI impI)
  assume "p_serverUrl p = Some s \<and> p_universe p = Some u \<and> p_token p = Some t"
  then show "snd (deleteFile_plain net p fileId tr) =
      tr @ [Fetch (spec_delete_request s u t fileId)]"
    by (simp add: deleteFile_plain_def void_snd fetchApi_plain_trace delete_request_of tmpl_def)
next
  assume a: "c_token c = Some t' \<and> trim fileId \<noteq> []"
  then have tok: "tmpl (c_token c) = t'"
    by (simp add: tmpl_def)
  from a have ne: "trim fileId \<noteq> []"
    by simp
  show "snd (deleteFile_checked net' c fileId tr') =
        tr' @ [Fetch (spec_delete_request (c_serverUrl c) (c_universe c) t' fileId)] \<or>
      snd (deleteFile_checked net' c fileId tr') =
        tr' @ [Fetch (spec_delete_request (c_serverUrl c) (c_universe c) t' fileId),
               Delay 1000,
               Fetch (spec_delete_request (c_serverUrl c) (c_universe c) t' fileId)]"
    using ne fetchApi_checked_trace [of net' c "js ''/thing/'' @ c_universe c @ js ''/'' @ fileId"
        "js ''DELETE''" None tr']
    by (simp add: deleteFile_checked_def void_snd delete_request_of tok)
next
  show "req_url (spec_delete_request s u t fileId) = s @ js ''/thing/'' @ u @ js ''/'' @ fileId"
    by (simp add: spec_delete_request_def)
qed

theorem deleteFile_path_literal_witness:
  "snd (deleteFile_plain unreachable store_plain (js ''a/b?c#d'') []) =
     [Fetch (spec_delete_request (js ''https://store.example'') (js ''myuni'') (js ''secret'')
               (js ''a/b?c#d''))] \<and>
   snd (deleteFile_checked (always ok_response) store_checked (js ''a/b?c#d'') []) =
     [Fetch (spec_delete_request (js ''https://store.example'') (js ''myuni'') (js ''secret'')
               (js ''a/b?c#d''))] \<and>
   req_url (spec_delete_request (js ''https://store.example'') (js ''myuni'') (js ''secret'')
              (js ''a/b?c#d'')) = js ''https://store.example/thing/myuni/a/b?c#d''"
proof -
  have one: "snd (deleteFile_checked (always ok_response) store_checked (js ''a/b?c#d'') []) \<noteq>
      [Fetch (spec_delete_request (js ''https://store.example'') (js ''myuni'') (js ''secret'')
               (js ''a/b?c#d'')), Delay 1000,
       Fetch (spec_delete_request (js ''https://store.example'') (js ''myuni'') (js ''secret'')
               (js ''a/b?c#d''))]"
    by (simp add: deleteFile_checked_def trim_reserved void_snd fetchApi_checked_unfold Let_def
        attempt_result always_def handleResponse_ok_response)
  have cat: "js ''https://store.example'' @ js ''/thing/'' @ js ''myuni'' @ js ''/'' @
      js ''a/b?c#d'' = js ''https://store.example/thing/myuni/a/b?c#d''"
    by (simp add: js_def)
  show ?thesis
    using one trim_reserved
      deleteFile_path_literal [of store_plain "js ''https://store.example''" "js ''myuni''"
        "js ''secret''" unreachable "js ''a/b?c#d''" "[]" store_checked "js ''secret''"
        "always ok_response" "[]"]
    by (simp add: store_plain_fields store_checked_fields cat)
qed

text \<open>
  Claim C10. In the documented client a file id whose code units are all white space
  trims to the empty string, and \<^verbatim>\<open>addFile\<close>, \<^verbatim>\<open>updateFile\<close> and \<^verbatim>\<open>deleteFile\<close> fail
  with the validation error and leave the trace as it was: no request is sent. The witness
  is the file id of one space, which is not the empty string.
\<close>

theorem blank_fileId_rejected:
  "list_all is_whitespace fileId \<Longrightarrow>
     trim fileId = [] \<and>
     addFile_checked net c fileId content tr = (Inl ValidationError, tr) \<and>
     updateFile_checked net c fileId content tr = (Inl ValidationError, tr) \<and>
     deleteFile_checked net c fileId tr = (Inl ValidationError, tr)"
  by (simp add: addFile_checked_def updateFile_checked_def deleteFile_checked_def
      ValidationError_def trim_empty_iff)

theorem blank_fileId_rejected_witness:
  "js '' '' \<noteq> [] \<and> list_all is_whitespace (js '' '') \<and>
   addFile_checked (always ok_response) store_checked (js '' '') (js ''hello world'') [] =
     (Inl ValidationError, []) \<and>
   updateFile_checked (always ok_response) store_checked (js '' '') (js ''hello world'') [] =
     (Inl ValidationError, []) \<and>
   deleteFile_checked (always ok_response) store_checked (js '' '') [] = (Inl ValidationError, [])"
proof -
  have ws: "list_all is_whitespace (js '' '')"
    by (simp add: js_def is_whitespace_def)
  have "js '' '' \<noteq> []"
    by (simp add: js_def)
  with ws blank_fileId_rejected [OF ws] show ?thesis
    by simp
qed

text \<open>
  Claim C8. \<^verbatim>\<open>finalize\<close> succeeds in every client state, returns the client unchanged and
  adds nothing to the trace.
\<close>

theorem finalize_noop:
  "finalize_plain p tr = (Inr (), p, tr) \<and> finalize_checked c tr' = (Inr (), c, tr')"
  by (simp add: finalize_plain_def finalize_checked_def)

end
